theory Spec2Isabelle
  imports Complex_Main "HOL-Library.Sublist" "HOL-Library.Product_Lexorder"
begin

section \<open>Python values\<close>

text \<open>
  The forms application stores field configuration, payload values and the compiled
  schema as JSON. A JSON value as Python holds it after parsing: \<open>None\<close>, \<open>bool\<close>,
  \<open>int\<close> (unbounded), \<open>float\<close>, \<open>str\<close>, \<open>list\<close> and \<open>dict\<close>. A finite float is
  carried by its exact rational value (Python compares \<open>int\<close> and \<open>float\<close> exactly;
  NaN and the infinities are not JSON). A \<open>dict\<close> is an association list in insertion
  order; a well-formed one has distinct keys. One \<open>char\<close> stands for one code point.
\<close>

datatype json =
    JNull
  | JBool bool
  | JInt int
  | JFloat rat
  | JStr string
  | JList "json list"
  | JObj "(string \<times> json) list"

text \<open>
  Exceptions that are not validation errors: of the interpreter, and of the database
  (\<open>IntegrityError\<close> for a violated key or uniqueness constraint, \<open>DataError\<close> for a
  value out of the range of its column).
\<close>

datatype py_exception = TypeError | AttributeError | DoesNotExist | IntegrityError | DataError

text \<open>
  The messages of \<open>serializers.ValidationError\<close>, one constructor per format string of
  \<open>serializers.py\<close>; the first argument is \<open>field.label\<close>, a second one the value
  formatted into the message:
  \<^item> \<open>FieldRequired l\<close>: \<^verbatim>\<open>Field '{l}' is required\<close>
  \<^item> \<open>ExpectedText l\<close>: \<^verbatim>\<open>{l}: Expected text value\<close>
  \<^item> \<open>MinimumLength l n\<close>: \<^verbatim>\<open>{l}: Minimum length is {n}\<close>
  \<^item> \<open>MaximumLength l n\<close>: \<^verbatim>\<open>{l}: Maximum length is {n}\<close>
  \<^item> \<open>ExpectedNumber l\<close>: \<^verbatim>\<open>{l}: Expected number value\<close>
  \<^item> \<open>MinimumValue l n\<close>: \<^verbatim>\<open>{l}: Minimum value is {n}\<close>
  \<^item> \<open>MaximumValue l n\<close>: \<^verbatim>\<open>{l}: Maximum value is {n}\<close>
  \<^item> \<open>InvalidOptionSelected l\<close>: \<^verbatim>\<open>{l}: Invalid option selected\<close>
  \<^item> \<open>ExpectedList l\<close>: \<^verbatim>\<open>{l}: Expected list of values\<close>
  \<^item> \<open>InvalidOption l v\<close>: \<^verbatim>\<open>{l}: Invalid option '{v}'\<close>
  \<^item> \<open>NoActiveVersion\<close>: \<^verbatim>\<open>Form has no active version\<close>
  \<^item> \<open>FormNotFound\<close>: \<^verbatim>\<open>Form not found or inactive\<close>
  \<^item> \<open>InvalidChoice\<close>: the framework's message for a \<open>status\<close> outside its choices
  \<^item> \<open>MayNotBeNull\<close>: the framework's \<^verbatim>\<open>This field may not be null.\<close>
\<close>

datatype message =
    FieldRequired string
  | ExpectedText string
  | MinimumLength string json
  | MaximumLength string json
  | ExpectedNumber string
  | MinimumValue string json
  | MaximumValue string json
  | InvalidOptionSelected string
  | ExpectedList string
  | InvalidOption string json
  | NoActiveVersion
  | FormNotFound
  | InvalidChoice
  | MayNotBeNull

text \<open>
  The bodies of the error responses of \<open>views.py\<close> (the text under the key \<open>error\<close>):
  \<^item> \<open>PermissionDenied\<close>: \<^verbatim>\<open>Permission denied\<close>
  \<^item> \<open>OnlyDraft\<close>: \<^verbatim>\<open>Only draft submissions can be submitted\<close>
  \<^item> \<open>InvalidStatus\<close>: \<^verbatim>\<open>Invalid status\<close>
  \<^item> \<open>UploadFieldsRequired\<close>: \<^verbatim>\<open>field_response_id and file are required\<close>
  \<^item> \<open>NoFileUploads\<close>: \<^verbatim>\<open>Field does not support file uploads\<close>
  \<^item> \<open>FileSizeExceeds m\<close>: \<^verbatim>\<open>File size exceeds {m}MB limit\<close>
  \<^item> \<open>FileTypeNotAllowed a\<close>: \<^verbatim>\<open>File type not allowed. Accepted: {a}\<close>
  \<^item> \<open>MaximumFiles n\<close>: \<^verbatim>\<open>Maximum {n} files allowed\<close>
  \<^item> \<open>FieldResponseNotFound\<close>: \<^verbatim>\<open>Field response not found\<close>
  \<^item> \<open>NotFound\<close>: the framework's 404 of \<open>get_object()\<close>
  \<^item> \<open>NotAdmin\<close>: the framework's 403 of the permission class \<open>IsAdminUser\<close>
\<close>

datatype reason =
    PermissionDenied
  | OnlyDraft
  | InvalidStatus
  | UploadFieldsRequired
  | NoFileUploads
  | FileSizeExceeds json
  | FileTypeNotAllowed string
  | MaximumFiles json
  | FieldResponseNotFound
  | NotFound
  | NotAdmin

text \<open>
  How an operation fails: a validation error raised by the serializer's own code, the
  errors the framework collects from the field validators (each under the path of its
  field), an error response of a view (status code and body), or an uncaught
  exception.
\<close>

datatype failure =
    ValidationError message
  | FieldErrors "(string list \<times> message) list"
  | ErrorResponse nat reason
  | Raised py_exception

text \<open>Truth value of a Python object, as \<open>if x\<close> and \<open>x and y\<close> test it.\<close>

fun truthy :: "json \<Rightarrow> bool" where
  "truthy JNull = False"
| "truthy (JBool b) = b"
| "truthy (JInt i) = (i \<noteq> 0)"
| "truthy (JFloat r) = (r \<noteq> 0)"
| "truthy (JStr s) = (s \<noteq> [])"
| "truthy (JList xs) = (xs \<noteq> [])"
| "truthy (JObj kvs) = (kvs \<noteq> [])"

text \<open>
  The numeric value of an instance of \<open>int\<close> or \<open>float\<close>. \<open>bool\<close> is a subclass of
  \<open>int\<close> in Python, with \<open>True == 1\<close> and \<open>False == 0\<close>.
\<close>

fun num_of :: "json \<Rightarrow> rat option" where
  "num_of (JBool b) = Some (if b then 1 else 0)"
| "num_of (JInt i) = Some (of_int i)"
| "num_of (JFloat r) = Some r"
| "num_of _ = None"

text \<open>
  \<open>a < b\<close>, \<open>a > b\<close> and \<open>a >= b\<close> for a number \<open>a\<close>: defined when \<open>b\<close> is a number too, a
  \<open>TypeError\<close> otherwise.
\<close>

definition num_lt :: "rat \<Rightarrow> json \<Rightarrow> failure + bool" where
  "num_lt a b = (case num_of b of None \<Rightarrow> Inl (Raised TypeError) | Some y \<Rightarrow> Inr (a < y))"

definition num_gt :: "rat \<Rightarrow> json \<Rightarrow> failure + bool" where
  "num_gt a b = (case num_of b of None \<Rightarrow> Inl (Raised TypeError) | Some y \<Rightarrow> Inr (a > y))"


text \<open>\<open>a == b\<close> on parsed JSON: numbers by value, containers element by element.\<close>

fun py_eq :: "json \<Rightarrow> json \<Rightarrow> bool"
  and py_eq_list :: "json list \<Rightarrow> json list \<Rightarrow> bool"
  and py_eq_items :: "(string \<times> json) list \<Rightarrow> (string \<times> json) list \<Rightarrow> bool" where
  "py_eq JNull b = (b = JNull)"
| "py_eq (JBool x) b = (num_of b = Some (if x then 1 else 0))"
| "py_eq (JInt i) b = (num_of b = Some (of_int i))"
| "py_eq (JFloat r) b = (num_of b = Some r)"
| "py_eq (JStr s) b = (b = JStr s)"
| "py_eq (JList xs) b = (case b of JList ys \<Rightarrow> py_eq_list xs ys | _ \<Rightarrow> False)"
| "py_eq (JObj xs) b =
     (case b of JObj ys \<Rightarrow> py_eq_items xs ys \<and> set (map fst ys) \<subseteq> set (map fst xs)
      | _ \<Rightarrow> False)"
| "py_eq_list [] ys = (ys = [])"
| "py_eq_list (x # xs) ys =
     (case ys of [] \<Rightarrow> False | y # ys' \<Rightarrow> py_eq x y \<and> py_eq_list xs ys')"
| "py_eq_items [] ys = True"
| "py_eq_items (kv # xs) ys =
     ((case map_of ys (fst kv) of None \<Rightarrow> False | Some w \<Rightarrow> py_eq (snd kv) w)
      \<and> py_eq_items xs ys)"

text \<open>\<open>t in s\<close> for two strings: \<open>t\<close> occurs in \<open>s\<close> as a contiguous run.\<close>

fun substring :: "string \<Rightarrow> string \<Rightarrow> bool" where
  "substring t [] = (t = [])"
| "substring t (c # cs) = (prefix t (c # cs) \<or> substring t cs)"

text \<open>
  \<open>v in options\<close>: a list is searched with \<open>==\<close>; a string takes a string on the left
  only; a dict is searched by key, which hashes \<open>v\<close> (lists and dicts are unhashable);
  anything else is not iterable.
\<close>

fun py_in :: "json \<Rightarrow> json \<Rightarrow> failure + bool" where
  "py_in v (JList xs) = Inr (list_ex (py_eq v) xs)"
| "py_in v (JStr s) = (case v of JStr t \<Rightarrow> Inr (substring t s) | _ \<Rightarrow> Inl (Raised TypeError))"
| "py_in v (JObj kvs) =
     (case v of
        JList _ \<Rightarrow> Inl (Raised TypeError)
      | JObj _ \<Rightarrow> Inl (Raised TypeError)
      | JStr k \<Rightarrow> Inr (k \<in> set (map fst kvs))
      | _ \<Rightarrow> Inr False)"
| "py_in v _ = Inl (Raised TypeError)"

text \<open>\<open>d.get(key, default)\<close> on a dict.\<close>

definition dict_get :: "(string \<times> json) list \<Rightarrow> string \<Rightarrow> json \<Rightarrow> json" where
  "dict_get d k dflt = (case map_of d k of None \<Rightarrow> dflt | Some v \<Rightarrow> v)"

text \<open>
  \<open>d[k] = v\<close>: replaces the value of an existing key in place, appends a new key. A dict
  comprehension \<open>{k: v for ...}\<close> stores its pairs one after the other.
\<close>

fun dict_set :: "(string \<times> 'v) list \<Rightarrow> string \<Rightarrow> 'v \<Rightarrow> (string \<times> 'v) list" where
  "dict_set [] k v = [(k, v)]"
| "dict_set (p # ps) k v = (if fst p = k then (k, v) # ps else p # dict_set ps k v)"

definition dict_of :: "(string \<times> 'v) list \<Rightarrow> (string \<times> 'v) list" where
  "dict_of kvs = foldl (\<lambda>d kv. dict_set d (fst kv) (snd kv)) [] kvs"

text \<open>\<open>QuerySet.first()\<close>\<close>

definition first :: "'a list \<Rightarrow> 'a option" where
  "first xs = (case xs of [] \<Rightarrow> None | x # _ \<Rightarrow> Some x)"

section \<open>The models (\<open>models.py\<close>)\<close>

text \<open>
  A primary key is the UUID that \<open>uuid.uuid4\<close> draws when the row is made, held in its
  canonical text form, so that \<open>str(id)\<close> is the key itself; the operations below take
  the drawn keys and the reading of the clock (\<open>timezone.now()\<close>) as arguments. A foreign
  key holds the key of the row it points to, a user is held by its key.
  \<open>PositiveIntegerField\<close> is a natural number.
\<close>

type_synonym uuid = string
type_synonym time = nat

record user =
  user_id :: nat
  is_staff :: bool

record form =
  form_id :: uuid
  form_name :: string
  form_description :: string
  form_created_by :: "nat option"
  is_active :: bool
  current_version :: "uuid option"
  notification_emails :: "string list"
  webhook_url :: "string option"
  form_created_at :: time
  form_updated_at :: time

record form_version =
  version_id :: uuid
  version_form :: uuid
  version_number :: nat
  schema_json :: json
  version_created_at :: time
  version_updated_at :: time

record form_field =
  field_id :: uuid
  field_form_version :: uuid
  field_name :: string
  label :: string
  field_type :: string
  field_order :: nat
  config :: "(string \<times> json) list"
  field_created_at :: time
  field_updated_at :: time

record validation_rule =
  rule_id :: uuid
  rule_field :: uuid
  rule_type :: string
  rule_config :: json
  error_message :: string
  rule_created_at :: time
  rule_updated_at :: time

record form_submission =
  submission_id :: uuid
  submission_form_version :: uuid
  submitted_by :: "nat option"
  status :: string
  submitted_at :: "time option"
  reviewed_by :: "nat option"
  reviewed_at :: "time option"
  review_notes :: string
  submission_created_at :: time
  submission_updated_at :: time

record field_response =
  response_id :: uuid
  response_submission :: uuid
  response_field :: uuid
  response_value :: json
  response_created_at :: time
  response_updated_at :: time

record file_upload =
  upload_id :: uuid
  upload_field_response :: uuid
  upload_file :: string
  original_filename :: string
  file_size :: nat
  mime_type :: string
  upload_created_at :: time
  upload_updated_at :: time

text \<open>The database: one table per model, each in the order its rows were inserted.\<close>

record db =
  forms :: "form list"
  versions :: "form_version list"
  form_fields :: "form_field list"
  rules :: "validation_rule list"
  submissions :: "form_submission list"
  field_responses :: "field_response list"
  file_uploads :: "file_upload list"

subsection \<open>Queries\<close>

text \<open>\<open>form.versions.order_by('-version_number')\<close>\<close>

definition versions_desc :: "db \<Rightarrow> uuid \<Rightarrow> form_version list" where
  "versions_desc d fid =
     rev (sort_key version_number (filter (\<lambda>v. version_form v = fid) (versions d)))"

text \<open>
  \<open>version.fields.all()\<close>, under the model's \<open>ordering = ['order', 'created_at']\<close>. Rows
  that agree on both keep the order of insertion.
\<close>

definition fields_all :: "db \<Rightarrow> uuid \<Rightarrow> form_field list" where
  "fields_all d vid =
     sort_key (\<lambda>f. (field_order f, field_created_at f))
       (filter (\<lambda>f. field_form_version f = vid) (form_fields d))"

text \<open>\<open>field.validation_rules.all()\<close>, under \<open>ordering = ['created_at']\<close>.\<close>

definition validation_rules_all :: "db \<Rightarrow> uuid \<Rightarrow> validation_rule list" where
  "validation_rules_all d fid =
     sort_key rule_created_at (filter (\<lambda>r. rule_field r = fid) (rules d))"

text \<open>\<open>Form.objects.get(id=...)\<close>; \<open>None\<close> is \<open>Form.DoesNotExist\<close>.\<close>

definition Form_get :: "db \<Rightarrow> uuid \<Rightarrow> form option" where
  "Form_get d fid = find (\<lambda>f. form_id f = fid) (forms d)"

subsection \<open>\<open>Form.create_new_version\<close>\<close>

text \<open>
  \<open>Model.save()\<close> of a form: the row with the object's key is rewritten, or inserted
  when there is none; \<open>auto_now\<close> stamps \<open>updated_at\<close>.
\<close>

definition Form_save :: "time \<Rightarrow> form \<Rightarrow> db \<Rightarrow> db \<times> form" where
  "Form_save now self d =
     (let self' = self\<lparr>form_updated_at := now\<rparr>
      in (if \<exists>f \<in> set (forms d). form_id f = form_id self
          then d\<lparr>forms := map (\<lambda>f. if form_id f = form_id self then self' else f) (forms d)\<rparr>
          else d\<lparr>forms := forms d @ [self']\<rparr>,
          self'))"

text \<open>
  \<open>FormVersion.objects.create(form=..., version_number=...)\<close>; \<open>schema_json\<close> defaults
  to \<open>{}\<close>. The INSERT fails and writes nothing when \<open>version_number\<close> does not fit
  the 32-bit column of a \<open>PositiveIntegerField\<close> (\<open>DataError\<close>), and when the key is
  already a row, the form is not a row (foreign key), or the form already has a version
  of that number (\<open>unique_together\<close>), each an \<open>IntegrityError\<close>.
\<close>

definition FormVersion_create ::
  "uuid \<Rightarrow> time \<Rightarrow> uuid \<Rightarrow> nat \<Rightarrow> db \<Rightarrow> db \<times> (failure + form_version)" where
  "FormVersion_create new_id now fid n d =
     (if n > 2147483647 then (d, Inl (Raised DataError))
      else if (\<exists>v \<in> set (versions d). version_id v = new_id)
              \<or> \<not> (\<exists>f \<in> set (forms d). form_id f = fid)
              \<or> (\<exists>v \<in> set (versions d). version_form v = fid \<and> version_number v = n)
      then (d, Inl (Raised IntegrityError))
      else
        (let v = \<lparr>version_id = new_id, version_form = fid, version_number = n,
                   schema_json = JObj [], version_created_at = now, version_updated_at = now\<rparr>
         in (d\<lparr>versions := versions d @ [v]\<rparr>, Inr v)))"

text \<open>
  \<open>create_new_version(self)\<close>: returns the database as the call leaves it and either
  the exception that ended it or the form object as the caller holds it afterwards
  with the new version.
\<close>

definition create_new_version ::
  "uuid \<Rightarrow> time \<Rightarrow> db \<Rightarrow> form \<Rightarrow> db \<times> (failure + form \<times> form_version)" where
  "create_new_version new_id now d self =
     (let last_version = first (versions_desc d (form_id self));
          n = (case last_version of Some lv \<Rightarrow> version_number lv + 1 | None \<Rightarrow> 1)
      in case FormVersion_create new_id now (form_id self) n d of
           (d1, Inl e) \<Rightarrow> (d1, Inl e)
         | (d1, Inr new_version) \<Rightarrow>
             (let (d2, self') =
                    Form_save now (self\<lparr>current_version := Some (version_id new_version)\<rparr>) d1
              in (d2, Inr (self', new_version))))"


text \<open>The number \<open>create_new_version\<close> reads as the highest so far, 0 when there is none.\<close>

definition last_number :: "db \<Rightarrow> uuid \<Rightarrow> nat" where
  "last_number d fid =
     (case first (versions_desc d fid) of Some lv \<Rightarrow> version_number lv | None \<Rightarrow> 0)"

text \<open>\<open>FormVersion.objects.get(id=...)\<close>, the row a foreign key to a version resolves to.\<close>

definition FormVersion_get :: "db \<Rightarrow> uuid \<Rightarrow> form_version option" where
  "FormVersion_get d vid = find (\<lambda>v. version_id v = vid) (versions d)"

section \<open>Submission validation (\<open>FormSubmissionCreateSerializer\<close>)\<close>

text \<open>The deserialized request: \<open>form_id\<close>, the dict \<open>responses\<close> and \<open>status\<close>.\<close>

record submission_data =
  data_form_id :: uuid
  data_responses :: "(string \<times> json) list"
  data_status :: string

text \<open>
  \<open>_validate_field_value(field, value)\<close>: four \<open>if\<close> blocks in a row, one per family of
  field types; every other type passes through all four untouched. The first
  \<open>raise\<close> ends the call.
\<close>

definition text_validations :: "form_field \<Rightarrow> json \<Rightarrow> failure + unit" where
  "text_validations field value =
     (if field_type field \<in> set [''text'', ''textarea'', ''email''] then
        (case value of
           JStr s \<Rightarrow>
             (let min_length = dict_get (config field) ''min_length'' JNull;
                  max_length = dict_get (config field) ''max_length'' JNull
              in case (if truthy min_length then num_lt (of_nat (length s)) min_length
                       else Inr False) of
                   Inl e \<Rightarrow> Inl e
                 | Inr True \<Rightarrow> Inl (ValidationError (MinimumLength (label field) min_length))
                 | Inr False \<Rightarrow>
                     (case (if truthy max_length then num_gt (of_nat (length s)) max_length
                            else Inr False) of
                        Inl e \<Rightarrow> Inl e
                      | Inr True \<Rightarrow>
                          Inl (ValidationError (MaximumLength (label field) max_length))
                      | Inr False \<Rightarrow> Inr ()))
         | _ \<Rightarrow> Inl (ValidationError (ExpectedText (label field))))
      else Inr ())"

definition number_validations :: "form_field \<Rightarrow> json \<Rightarrow> failure + unit" where
  "number_validations field value =
     (if field_type field = ''number'' then
        (case num_of value of
           None \<Rightarrow> Inl (ValidationError (ExpectedNumber (label field)))
         | Some x \<Rightarrow>
             (let min_value = dict_get (config field) ''min_value'' JNull;
                  max_value = dict_get (config field) ''max_value'' JNull
              in case (if min_value \<noteq> JNull then num_lt x min_value else Inr False) of
                   Inl e \<Rightarrow> Inl e
                 | Inr True \<Rightarrow> Inl (ValidationError (MinimumValue (label field) min_value))
                 | Inr False \<Rightarrow>
                     (case (if max_value \<noteq> JNull then num_gt x max_value else Inr False) of
                        Inl e \<Rightarrow> Inl e
                      | Inr True \<Rightarrow>
                          Inl (ValidationError (MaximumValue (label field) max_value))
                      | Inr False \<Rightarrow> Inr ())))
      else Inr ())"

definition select_validations :: "form_field \<Rightarrow> json \<Rightarrow> failure + unit" where
  "select_validations field value =
     (if field_type field \<in> set [''select'', ''radio''] then
        (let options = dict_get (config field) ''options'' (JList [])
         in case py_in value options of
              Inl e \<Rightarrow> Inl e
            | Inr True \<Rightarrow> Inr ()
            | Inr False \<Rightarrow> Inl (ValidationError (InvalidOptionSelected (label field))))
      else Inr ())"

text \<open>The loop \<open>for v in value\<close> of the multi-select block.\<close>

fun check_options :: "string \<Rightarrow> json \<Rightarrow> json list \<Rightarrow> failure + unit" where
  "check_options l options [] = Inr ()"
| "check_options l options (v # vs) =
     (case py_in v options of
        Inl e \<Rightarrow> Inl e
      | Inr True \<Rightarrow> check_options l options vs
      | Inr False \<Rightarrow> Inl (ValidationError (InvalidOption l v)))"

definition multi_select_validations :: "form_field \<Rightarrow> json \<Rightarrow> failure + unit" where
  "multi_select_validations field value =
     (if field_type field = ''multi_select'' then
        (case value of
           JList vs \<Rightarrow>
             check_options (label field) (dict_get (config field) ''options'' (JList [])) vs
         | _ \<Rightarrow> Inl (ValidationError (ExpectedList (label field))))
      else Inr ())"

definition validate_field_value :: "form_field \<Rightarrow> json \<Rightarrow> failure + unit" where
  "validate_field_value field value =
     (case text_validations field value of
        Inl e \<Rightarrow> Inl e
      | Inr _ \<Rightarrow>
     (case number_validations field value of
        Inl e \<Rightarrow> Inl e
      | Inr _ \<Rightarrow>
     (case select_validations field value of
        Inl e \<Rightarrow> Inl e
      | Inr _ \<Rightarrow> multi_select_validations field value)))"

text \<open>
  The loop \<open>for field_name, field in fields.items()\<close> of \<open>validate\<close>: a required field
  whose name is not a key of \<open>responses\<close> raises; a field whose name is a key has its
  value checked; the first \<open>raise\<close> ends the loop.
\<close>

fun validate_fields :: "(string \<times> form_field) list \<Rightarrow> (string \<times> json) list \<Rightarrow> failure + unit" where
  "validate_fields [] responses = Inr ()"
| "validate_fields (item # rest) responses =
     (let field_name = fst item; field = snd item;
          is_required = dict_get (config field) ''required'' (JBool False)
      in case map_of responses field_name of
           None \<Rightarrow>
             (if truthy is_required
              then Inl (ValidationError (FieldRequired (label field)))
              else validate_fields rest responses)
         | Some value \<Rightarrow>
             (case validate_field_value field value of
                Inl e \<Rightarrow> Inl e
              | Inr _ \<Rightarrow> validate_fields rest responses))"

text \<open>\<open>{field.name: field for field in version.fields.all()}\<close>\<close>

definition fields_by_name :: "db \<Rightarrow> uuid \<Rightarrow> (string \<times> form_field) list" where
  "fields_by_name d vid = dict_of (map (\<lambda>f. (field_name f, f)) (fields_all d vid))"

text \<open>\<open>validate_form_id(value)\<close>: the form exists, is active and has a current version.\<close>

definition validate_form_id :: "db \<Rightarrow> uuid \<Rightarrow> message + uuid" where
  "validate_form_id d value =
     (case find (\<lambda>f. form_id f = value \<and> is_active f) (forms d) of
        None \<Rightarrow> Inl FormNotFound
      | Some form \<Rightarrow>
          (if current_version form = None then Inl NoActiveVersion
           else Inr value))"

text \<open>
  \<open>validate(data)\<close>. It runs after the field validators; called on its own, a missing
  form is \<open>Form.DoesNotExist\<close> and a missing current version an \<open>AttributeError\<close> on
  \<open>None\<close>.
\<close>

definition validate :: "db \<Rightarrow> submission_data \<Rightarrow> failure + submission_data" where
  "validate d data =
     (case Form_get d (data_form_id data) of
        None \<Rightarrow> Inl (Raised DoesNotExist)
      | Some form \<Rightarrow>
          (case current_version form of
             None \<Rightarrow> Inl (Raised AttributeError)
           | Some version \<Rightarrow>
               (case validate_fields (fields_by_name d version) (data_responses data) of
                  Inl e \<Rightarrow> Inl e
                | Inr _ \<Rightarrow> Inr data)))"

text \<open>
  The field stage of \<open>is_valid()\<close>: the framework runs the fields in the order they are
  declared and collects every error. \<open>form_id\<close> goes through \<open>validate_form_id\<close>;
  \<open>responses\<close> is a \<open>DictField\<close> whose child \<open>JSONField\<close> does not allow \<open>None\<close>, so
  every entry with a null value is refused; \<open>status\<close> is a choice of \<open>draft\<close> and
  \<open>submitted\<close>.
\<close>

definition field_errors :: "db \<Rightarrow> submission_data \<Rightarrow> (string list \<times> message) list" where
  "field_errors d data =
     (case validate_form_id d (data_form_id data) of
        Inl m \<Rightarrow> [([''form_id''], m)]
      | Inr _ \<Rightarrow> [])
     @ map (\<lambda>kv. ([''responses'', fst kv], MayNotBeNull))
         (filter (\<lambda>kv. snd kv = JNull) (data_responses data))
     @ (if data_status data \<notin> set [''draft'', ''submitted'']
        then [([''status''], InvalidChoice)] else [])"

text \<open>\<open>is_valid()\<close>: \<open>validate\<close> runs only when the field stage found no error.\<close>

definition is_valid :: "db \<Rightarrow> submission_data \<Rightarrow> failure + submission_data" where
  "is_valid d data =
     (if field_errors d data \<noteq> [] then Inl (FieldErrors (field_errors d data))
      else validate d data)"

section \<open>Submission lifecycle (\<open>FormSubmissionViewSet\<close>)\<close>

text \<open>
  A view returns the database as it leaves it, the submissions it queued for
  \<open>send_submission_notification\<close>, and its response: a failure or the submission it
  serializes.
\<close>

type_synonym view_result = "db \<times> uuid list \<times> (failure + form_submission)"

text \<open>\<open>get_queryset()\<close>: a user who is not staff sees only their own submissions.\<close>

definition get_queryset :: "db \<Rightarrow> user \<Rightarrow> form_submission list" where
  "get_queryset d u =
     (if \<not> is_staff u then filter (\<lambda>s. submitted_by s = Some (user_id u)) (submissions d)
      else submissions d)"

text \<open>\<open>get_object()\<close>: the row of the queryset with the key of the URL, or a 404.\<close>

definition get_object :: "db \<Rightarrow> user \<Rightarrow> uuid \<Rightarrow> failure + form_submission" where
  "get_object d u pk =
     (case find (\<lambda>s. submission_id s = pk) (get_queryset d u) of
        None \<Rightarrow> Inl (ErrorResponse 404 NotFound)
      | Some s \<Rightarrow> Inr s)"

text \<open>\<open>Model.save()\<close> of a submission that has a row.\<close>

definition FormSubmission_save :: "time \<Rightarrow> form_submission \<Rightarrow> db \<Rightarrow> db \<times> form_submission" where
  "FormSubmission_save now self d =
     (let self' = self\<lparr>submission_updated_at := now\<rparr>
      in (d\<lparr>submissions :=
              map (\<lambda>s. if submission_id s = submission_id self then self' else s) (submissions d)\<rparr>,
          self'))"

text \<open>The action \<open>submit\<close>; \<open>now\<close> is \<open>timezone.now()\<close>.\<close>

definition submit :: "db \<Rightarrow> user \<Rightarrow> uuid \<Rightarrow> time \<Rightarrow> view_result" where
  "submit d request_user pk now =
     (case get_object d request_user pk of
        Inl e \<Rightarrow> (d, [], Inl e)
      | Inr submission \<Rightarrow>
          (if submitted_by submission \<noteq> Some (user_id request_user) \<and> \<not> is_staff request_user
           then (d, [], Inl (ErrorResponse 403 PermissionDenied))
           else if status submission \<noteq> ''draft''
           then (d, [], Inl (ErrorResponse 400 OnlyDraft))
           else
             (let (d', submission') =
                    FormSubmission_save now
                      (submission\<lparr>status := ''submitted'', submitted_at := Some now\<rparr>) d
              in (d', [submission_id submission'], Inr submission'))))"


section \<open>File uploads (\<open>FileUploadViewSet.create\<close>)\<close>












section \<open>Making submissions (\<open>FormSubmissionCreateSerializer.create\<close>)\<close>

text \<open>
  The loop \<open>for field_name, value in validated_data['responses'].items()\<close>: one
  \<open>FieldResponse\<close> row per entry whose name is a key of the dict \<open>fields\<close>; \<open>key_of\<close> gives the
  key drawn for the row of a field name.
\<close>

fun create_responses ::
  "(string \<Rightarrow> uuid) \<Rightarrow> time \<Rightarrow> uuid \<Rightarrow> (string \<times> form_field) list \<Rightarrow> (string \<times> json) list
     \<Rightarrow> db \<Rightarrow> db" where
  "create_responses key_of now sid fields_dict [] d = d"
| "create_responses key_of now sid fields_dict (item # rest) d =
     (case map_of fields_dict (fst item) of
        None \<Rightarrow> create_responses key_of now sid fields_dict rest d
      | Some field \<Rightarrow>
          create_responses key_of now sid fields_dict rest
            (d\<lparr>field_responses := field_responses d @
                 [\<lparr>response_id = key_of (fst item), response_submission = sid,
                   response_field = field_id field, response_value = snd item,
                   response_created_at = now, response_updated_at = now\<rparr>]\<rparr>))"

definition create ::
  "uuid \<Rightarrow> (string \<Rightarrow> uuid) \<Rightarrow> time \<Rightarrow> db \<Rightarrow> user \<Rightarrow> submission_data
     \<Rightarrow> failure + db \<times> form_submission" where
  "create new_id key_of now d request_user validated_data =
     (case Form_get d (data_form_id validated_data) of
        None \<Rightarrow> Inl (Raised DoesNotExist)
      | Some form \<Rightarrow>
          (case current_version form of
             None \<Rightarrow> Inl (Raised AttributeError)
           | Some version \<Rightarrow>
               (let submission0 =
                      \<lparr>submission_id = new_id, submission_form_version = version,
                       submitted_by = Some (user_id request_user),
                       status = data_status validated_data, submitted_at = None,
                       reviewed_by = None, reviewed_at = None, review_notes = [],
                       submission_created_at = now, submission_updated_at = now\<rparr>;
                    submission =
                      (if data_status validated_data = ''submitted''
                       then submission0\<lparr>submitted_at := Some now\<rparr> else submission0);
                    d1 = d\<lparr>submissions := submissions d @ [submission]\<rparr>
                in Inr (create_responses key_of now new_id (fields_by_name d1 version)
                          (data_responses validated_data) d1,
                        submission))))"

section \<open>The schema document (\<open>_build_schema_json\<close>)\<close>

text \<open>The entry of one validation rule.\<close>

definition rule_entry :: "validation_rule \<Rightarrow> json" where
  "rule_entry rule =
     JObj [(''type'', JStr (rule_type rule)),
           (''config'', rule_config rule),
           (''error_message'', JStr (error_message rule))]"

text \<open>\<open>FormCreateSerializer._build_schema_json(version)\<close>\<close>

definition FormCreateSerializer_build_schema_json :: "db \<Rightarrow> form_version \<Rightarrow> json" where
  "FormCreateSerializer_build_schema_json d version =
     JObj [(''fields'',
            JList (map (\<lambda>field.
                      JObj [(''id'', JStr (field_id field)),
                            (''name'', JStr (field_name field)),
                            (''label'', JStr (label field)),
                            (''type'', JStr (field_type field)),
                            (''order'', JInt (int (field_order field))),
                            (''config'', JObj (config field)),
                            (''validation_rules'',
                             JList (map rule_entry (validation_rules_all d (field_id field))))])
                   (fields_all d (version_id version))))]"

text \<open>\<open>FormUpdateSerializer._build_schema_json(version)\<close>\<close>

definition FormUpdateSerializer_build_schema_json :: "db \<Rightarrow> form_version \<Rightarrow> json" where
  "FormUpdateSerializer_build_schema_json d version =
     JObj [(''fields'',
            JList (map (\<lambda>field.
                      JObj [(''id'', JStr (field_id field)),
                            (''name'', JStr (field_name field)),
                            (''label'', JStr (label field)),
                            (''type'', JStr (field_type field)),
                            (''order'', JInt (int (field_order field))),
                            (''config'', JObj (config field))])
                   (fields_all d (version_id version))))]"

text \<open>
  One item of \<open>fields_data\<close> as \<open>FormFieldSerializer\<close> validates it (\<open>validation_rules\<close>
  is read-only there and never part of it), and
  \<open>FormField.objects.create(form_version=version, **field_data)\<close> with the key drawn
  for the row.
\<close>

record field_data =
  data_name :: string
  data_label :: string
  data_field_type :: string
  data_order :: nat
  data_config :: "(string \<times> json) list"

definition FormField_create :: "uuid \<Rightarrow> time \<Rightarrow> uuid \<Rightarrow> field_data \<Rightarrow> db \<Rightarrow> db" where
  "FormField_create new_id now vid field_data d =
     d\<lparr>form_fields := form_fields d @
         [\<lparr>field_id = new_id, field_form_version = vid, field_name = data_name field_data,
           label = data_label field_data, field_type = data_field_type field_data,
           field_order = data_order field_data, config = data_config field_data,
           field_created_at = now, field_updated_at = now\<rparr>]\<rparr>"

text \<open>The loop \<open>for field_data in fields_data\<close>.\<close>

fun create_fields :: "time \<Rightarrow> uuid \<Rightarrow> (uuid \<times> field_data) list \<Rightarrow> db \<Rightarrow> db" where
  "create_fields now vid [] d = d"
| "create_fields now vid (item # rest) d =
     create_fields now vid rest (FormField_create (fst item) now vid (snd item) d)"

text \<open>\<open>Model.save()\<close> of a version that has a row.\<close>

definition FormVersion_save :: "time \<Rightarrow> form_version \<Rightarrow> db \<Rightarrow> db \<times> form_version" where
  "FormVersion_save now self d =
     (let self' = self\<lparr>version_updated_at := now\<rparr>
      in (d\<lparr>versions :=
              map (\<lambda>v. if version_id v = version_id self then self' else v) (versions d)\<rparr>,
          self'))"

text \<open>
  \<open>FormCreateSerializer.create(validated_data)\<close>: \<open>new_form\<close> is the object
  \<open>Form.objects.create\<close> makes from \<open>validated_data\<close>, \<open>version_key\<close> the key drawn for its
  first version.
\<close>

definition FormCreateSerializer_create ::
  "form \<Rightarrow> uuid \<Rightarrow> (uuid \<times> field_data) list \<Rightarrow> time \<Rightarrow> db \<Rightarrow> db \<times> (failure + form)" where
  "FormCreateSerializer_create new_form version_key fields_data now d =
     (let d0 = d\<lparr>forms := forms d @ [new_form]\<rparr>
      in case create_new_version version_key now d0 new_form of
           (d1, Inl e) \<Rightarrow> (d1, Inl e)
         | (d1, Inr (form, version)) \<Rightarrow>
             (let d2 = create_fields now (version_id version) fields_data d1;
                  (d3, version') =
                    FormVersion_save now
                      (version\<lparr>schema_json := FormCreateSerializer_build_schema_json d2 version\<rparr>)
                      d2
              in (d3, Inr form)))"

text \<open>
  \<open>FormUpdateSerializer.update(instance, validated_data)\<close>: \<open>set_attrs\<close> is the loop of
  \<open>setattr\<close> over the remaining \<open>validated_data\<close>; \<open>fields_data\<close> is \<open>None\<close> when the
  request has no \<open>fields\<close>.
\<close>

definition FormUpdateSerializer_update ::
  "form \<Rightarrow> (form \<Rightarrow> form) \<Rightarrow> uuid \<Rightarrow> (uuid \<times> field_data) list option \<Rightarrow> time \<Rightarrow> db
     \<Rightarrow> db \<times> (failure + form)" where
  "FormUpdateSerializer_update instance set_attrs version_key fields_data now d =
     (let (d0, instance0) = Form_save now (set_attrs instance) d
      in case fields_data of
           None \<Rightarrow> (d0, Inr instance0)
         | Some fds \<Rightarrow>
             (case create_new_version version_key now d0 instance0 of
                (d1, Inl e) \<Rightarrow> (d1, Inl e)
              | (d1, Inr (instance1, version)) \<Rightarrow>
                  (let d2 = create_fields now (version_id version) fds d1;
                       (d3, version') =
                         FormVersion_save now
                           (version\<lparr>schema_json :=
                                      FormUpdateSerializer_build_schema_json d2 version\<rparr>)
                           d2
                   in (d3, Inr instance1))))"

text \<open>The keys of the entries under \<open>fields\<close> of a schema document, entry by entry.\<close>

definition entry_keys :: "json \<Rightarrow> string list list" where
  "entry_keys doc =
     (case doc of
        JObj [(k, JList entries)] \<Rightarrow>
          (if k = ''fields''
           then map (\<lambda>e. case e of JObj kvs \<Rightarrow> map fst kvs | _ \<Rightarrow> []) entries
           else [])
      | _ \<Rightarrow> [])"

section \<open>Example data\<close>

definition empty_db :: db where
  "empty_db = \<lparr>forms = [], versions = [], form_fields = [], rules = [], submissions = [],
                field_responses = [], file_uploads = []\<rparr>"

definition kyc_form :: form where
  "kyc_form = \<lparr>form_id = ''f1'', form_name = ''KYC Form'', form_description = [],
               form_created_by = Some 1, is_active = True, current_version = None,
               notification_emails = [], webhook_url = None,
               form_created_at = 0, form_updated_at = 0\<rparr>"


definition version_one :: form_version where
  "version_one = \<lparr>version_id = ''v1'', version_form = ''f1'', version_number = 1,
                  schema_json = JObj [], version_created_at = 1, version_updated_at = 1\<rparr>"

definition alice :: user where
  "alice = \<lparr>user_id = 7, is_staff = False\<rparr>"


definition draft_submission :: form_submission where
  "draft_submission =
     \<lparr>submission_id = ''s1'', submission_form_version = ''v1'', submitted_by = Some 7,
      status = ''draft'', submitted_at = None, reviewed_by = None, reviewed_at = None,
      review_notes = [], submission_created_at = 2, submission_updated_at = 2\<rparr>"

definition approved_submission :: form_submission where
  "approved_submission =
     \<lparr>submission_id = ''s2'', submission_form_version = ''v1'', submitted_by = Some 7,
      status = ''approved'', submitted_at = Some 3, reviewed_by = Some 1, reviewed_at = Some 4,
      review_notes = ''ok'', submission_created_at = 3, submission_updated_at = 4\<rparr>"

definition review_db :: db where
  "review_db = empty_db\<lparr>forms := [kyc_form\<lparr>current_version := Some ''v1''\<rparr>],
                         versions := [version_one],
                         submissions := [draft_submission, approved_submission]\<rparr>"

definition full_name_field :: form_field where
  "full_name_field =
     \<lparr>field_id = ''fld1'', field_form_version = ''v1'', field_name = ''full_name'',
      label = ''Full Name'', field_type = ''text'', field_order = 1,
      config = [(''required'', JBool True)], field_created_at = 1, field_updated_at = 1\<rparr>"

definition email_field :: form_field where
  "email_field =
     \<lparr>field_id = ''fld2'', field_form_version = ''v1'', field_name = ''email'',
      label = ''Email'', field_type = ''email'', field_order = 2,
      config = [(''required'', JBool True), (''max_length'', JInt 255)],
      field_created_at = 1, field_updated_at = 1\<rparr>"

definition age_field :: form_field where
  "age_field =
     \<lparr>field_id = ''fld3'', field_form_version = ''v1'', field_name = ''age'',
      label = ''Age'', field_type = ''number'', field_order = 0,
      config = [(''min_value'', JInt 0), (''max_value'', JInt 100)],
      field_created_at = 1, field_updated_at = 1\<rparr>"

definition birth_date_field :: form_field where
  "birth_date_field =
     \<lparr>field_id = ''fld4'', field_form_version = ''v1'', field_name = ''birth_date'',
      label = ''Date of birth'', field_type = ''date'', field_order = 3,
      config = [(''required'', JBool True)], field_created_at = 1, field_updated_at = 1\<rparr>"

definition kyc_db :: db where
  "kyc_db = review_db\<lparr>form_fields := [full_name_field, email_field]\<rparr>"

definition survey_db :: db where
  "survey_db = review_db\<lparr>form_fields := [email_field, age_field]\<rparr>"







definition full_name_data :: field_data where
  "full_name_data =
     \<lparr>data_name = ''full_name'', data_label = ''Full Name'', data_field_type = ''text'',
      data_order = 1, data_config = [(''required'', JBool True)]\<rparr>"

definition created_db :: db where
  "created_db =
     fst (FormCreateSerializer_create kyc_form ''v1'' [(''fld1'', full_name_data)] 1 empty_db)"

definition created_form :: form where
  "created_form = kyc_form\<lparr>current_version := Some ''v1'', form_updated_at := 1\<rparr>"

definition updated_db :: db where
  "updated_db =
     fst (FormUpdateSerializer_update created_form (\<lambda>f. f) ''v2''
            (Some [(''fld6'', full_name_data)]) 5 created_db)"

text \<open>The row one payload entry contributes to \<open>create\<close>: none for an unknown name.\<close>

definition response_row :: "(string \<Rightarrow> uuid) \<Rightarrow> time \<Rightarrow> uuid \<Rightarrow> (string \<times> form_field) list \<Rightarrow> string \<times> json \<Rightarrow> field_response list" where
  "response_row key_of now sid fields_dict item =
     (case map_of fields_dict (fst item) of
        None \<Rightarrow> []
      | Some field \<Rightarrow>
          [\<lparr>response_id = key_of (fst item), response_submission = sid,
            response_field = field_id field, response_value = snd item,
            response_created_at = now, response_updated_at = now\<rparr>])"

section \<open>Version numbering\<close>









lemma Form_get_stored: "Form_get d fid \<noteq> None \<longleftrightarrow> (\<exists>f \<in> set (forms d). form_id f = fid)"
  by (auto simp: Form_get_def find_None_iff)


text \<open>
  Where the call raises and writes nothing: on a form that is not a row (the foreign
  key of the new version), and when the next number is past the top of the column.
\<close>

lemma create_new_version_not_stored:
  assumes "Form_get d (form_id self) = None" and "last_number d (form_id self) < 2147483647"
  shows "create_new_version k now d self = (d, Inl (Raised IntegrityError))"
proof -
  have n: "(case first (versions_desc d (form_id self)) of
              Some lv \<Rightarrow> version_number lv + 1 | None \<Rightarrow> 1)
      = Suc (last_number d (form_id self))"
    by (simp add: last_number_def split: option.splits)
  have "\<not> (\<exists>f \<in> set (forms d). form_id f = form_id self)"
    using assms(1) Form_get_stored [of d "form_id self"] by simp
  then show ?thesis
    using assms(2) by (simp add: create_new_version_def FormVersion_create_def Let_def n)
qed

lemma create_new_version_overflow:
  assumes "last_number d (form_id self) = 2147483647"
  shows "create_new_version k now d self = (d, Inl (Raised DataError))"
proof -
  have n: "(case first (versions_desc d (form_id self)) of
              Some lv \<Rightarrow> version_number lv + 1 | None \<Rightarrow> 1)
      = Suc (last_number d (form_id self))"
    by (simp add: last_number_def split: option.splits)
  show ?thesis
    using assms by (simp add: create_new_version_def FormVersion_create_def Let_def n)
qed




section \<open>Historical integrity\<close>

lemma find_append_Some: "find P xs = Some x \<Longrightarrow> find P (xs @ ys) = Some x"
  by (induction xs) (auto split: if_splits)

lemma create_new_version_tables:
  "submissions (fst (create_new_version k now d self)) = submissions d
   \<and> versions (fst (create_new_version k now d self))
       = versions d @ (case snd (create_new_version k now d self) of
                         Inl e \<Rightarrow> [] | Inr r \<Rightarrow> [snd r])
   \<and> form_fields (fst (create_new_version k now d self)) = form_fields d
   \<and> field_responses (fst (create_new_version k now d self)) = field_responses d"
  by (simp add: create_new_version_def FormVersion_create_def Form_save_def Let_def)

text \<open>
  C2. \<open>create_new_version\<close> leaves the table of submissions as it is and only appends
  to the table of versions (the new version, or nothing when the call raises): an
  existing submission is still there with the same \<open>form_version\<close>, that reference
  still resolves to the same unchanged version row (number and schema document
  included), and no version row is changed or removed.
\<close>

theorem create_new_version_keeps_history:
  assumes "s \<in> set (submissions d)"
    and "FormVersion_get d (submission_form_version s) = Some v1"
  shows "s \<in> set (submissions (fst (create_new_version k now d self)))
     \<and> submissions (fst (create_new_version k now d self)) = submissions d
     \<and> FormVersion_get (fst (create_new_version k now d self)) (submission_form_version s) = Some v1
     \<and> versions (fst (create_new_version k now d self))
         = versions d @ (case snd (create_new_version k now d self) of
                           Inl e \<Rightarrow> [] | Inr r \<Rightarrow> [snd r])"
  using assms create_new_version_tables [of k now d self]
  by (simp add: FormVersion_get_def find_append_Some)

theorem create_new_version_keeps_history_witness:
  "draft_submission \<in> set (submissions review_db)
   \<and> FormVersion_get review_db (submission_form_version draft_submission) = Some version_one
   \<and> FormVersion_get (fst (create_new_version ''v2'' 9 review_db (kyc_form\<lparr>current_version := Some ''v1''\<rparr>)))
        (submission_form_version draft_submission) = Some version_one
   \<and> map_sum id (version_number \<circ> snd)
        (snd (create_new_version ''v2'' 9 review_db (kyc_form\<lparr>current_version := Some ''v1''\<rparr>)))
       = Inr 2
   \<and> map version_number
        (versions (fst (create_new_version ''v2'' 9 review_db (kyc_form\<lparr>current_version := Some ''v1''\<rparr>))))
       = [1, 2]"
proof -
  let ?r = "create_new_version ''v2'' 9 review_db (kyc_form\<lparr>current_version := Some ''v1''\<rparr>)"
  have a: "draft_submission \<in> set (submissions review_db)"
    by (simp add: review_db_def empty_db_def)
  have b: "FormVersion_get review_db (submission_form_version draft_submission) = Some version_one"
    by (simp add: FormVersion_get_def review_db_def empty_db_def draft_submission_def version_one_def)
  have c: "map_sum id (version_number \<circ> snd) (snd ?r) = Inr 2"
    by (simp add: create_new_version_def FormVersion_create_def Form_save_def versions_desc_def
        first_def review_db_def empty_db_def kyc_form_def version_one_def Let_def)
  have e: "map version_number (versions (fst ?r)) = [1, 2]"
    by (simp add: create_new_version_def FormVersion_create_def Form_save_def versions_desc_def
        first_def review_db_def empty_db_def kyc_form_def version_one_def Let_def)
  from create_new_version_keeps_history [OF a b, of "''v2''" 9 "kyc_form\<lparr>current_version := Some ''v1''\<rparr>"] a b c e
  show ?thesis by simp
qed

section \<open>Submission lifecycle\<close>

lemma find_SomeD: "find P xs = Some x \<Longrightarrow> P x \<and> x \<in> set xs"
  by (induction xs) (auto split: if_splits)

lemma get_object_visible:
  assumes "get_object d u pk = Inr s"
  shows "submission_id s = pk \<and> s \<in> set (submissions d)
     \<and> (is_staff u \<or> submitted_by s = Some (user_id u))"
proof -
  from assms have "find (\<lambda>x. submission_id x = pk) (get_queryset d u) = Some s"
    by (simp add: get_object_def split: option.splits)
  from find_SomeD [OF this] show ?thesis
    by (auto simp: get_queryset_def split: if_splits)
qed

lemma find_after_replace:
  "find (\<lambda>x. submission_id x = pk) (filter P xs) = Some s \<Longrightarrow> submission_id s' = pk \<Longrightarrow> P s' \<Longrightarrow>
     find (\<lambda>x. submission_id x = pk)
       (filter P (map (\<lambda>x. if submission_id x = pk then s' else x) xs)) = Some s'"
  by (induction xs) (auto split: if_splits)

lemma get_object_after_save:
  assumes got: "get_object d u pk = Inr s"
    and id: "submission_id s' = pk"
    and owner: "submitted_by s' = submitted_by s"
  shows "get_object (fst (FormSubmission_save now s' d)) u pk = Inr (s'\<lparr>submission_updated_at := now\<rparr>)"
proof -
  let ?t = "s'\<lparr>submission_updated_at := now\<rparr>"
  let ?P = "\<lambda>x. is_staff u \<or> submitted_by x = Some (user_id u)"
  have q: "get_queryset e u = filter ?P (submissions e)" for e
    by (cases "is_staff u") (simp_all add: get_queryset_def)
  from got have f: "find (\<lambda>x. submission_id x = pk) (filter ?P (submissions d)) = Some s"
    by (simp add: get_object_def q split: option.splits)
  have t: "submission_id ?t = pk" "?P ?t"
    using id owner get_object_visible [OF got] by auto
  have rows: "submissions (fst (FormSubmission_save now s' d))
      = map (\<lambda>x. if submission_id x = pk then ?t else x) (submissions d)"
    using id by (simp add: FormSubmission_save_def Let_def)
  show ?thesis
    unfolding get_object_def q rows
    using find_after_replace [OF f t] by simp
qed

text \<open>
  C4. For every submission the caller can address, the action \<open>submit\<close> succeeds exactly
  when its status is \<open>draft\<close>. On a draft it sets the status to \<open>submitted\<close>, stamps
  \<open>submitted_at\<close> with the current time, stores the row and queues the notification; on
  any other status it answers with an error and leaves the database as it was.
\<close>

theorem submit_only_from_draft:
  assumes "get_object d u pk = Inr s"
  shows "(isl (snd (snd (submit d u pk now))) \<longleftrightarrow> status s \<noteq> ''draft'')
     \<and> (status s \<noteq> ''draft'' \<longrightarrow> submit d u pk now = (d, [], Inl (ErrorResponse 400 OnlyDraft)))
     \<and> (status s = ''draft'' \<longrightarrow>
          snd (snd (submit d u pk now))
            = Inr (s\<lparr>status := ''submitted'', submitted_at := Some now, submission_updated_at := now\<rparr>)
          \<and> get_object (fst (submit d u pk now)) u pk
            = Inr (s\<lparr>status := ''submitted'', submitted_at := Some now, submission_updated_at := now\<rparr>)
          \<and> fst (snd (submit d u pk now)) = [pk])"
proof -
  note vis = get_object_visible [OF assms]
  let ?s1 = "s\<lparr>status := ''submitted'', submitted_at := Some now\<rparr>"
  have perm: "\<not> (submitted_by s \<noteq> Some (user_id u) \<and> \<not> is_staff u)" using vis by auto
  show ?thesis
  proof (cases "status s = ''draft''")
    case False
    then show ?thesis using assms perm by (simp add: submit_def)
  next
    case True
    have run: "submit d u pk now
        = (fst (FormSubmission_save now ?s1 d), [pk], Inr (?s1\<lparr>submission_updated_at := now\<rparr>))"
      using assms perm True vis by (simp add: submit_def FormSubmission_save_def Let_def)
    have "get_object (fst (FormSubmission_save now ?s1 d)) u pk = Inr (?s1\<lparr>submission_updated_at := now\<rparr>)"
      using vis by (intro get_object_after_save [OF assms]) simp_all
    with run True show ?thesis by simp
  qed
qed

theorem submit_only_from_draft_witness:
  "get_object review_db alice ''s1'' = Inr draft_submission
   \<and> status draft_submission = ''draft''
   \<and> snd (snd (submit review_db alice ''s1'' 9))
       = Inr (draft_submission\<lparr>status := ''submitted'', submitted_at := Some 9,
                               submission_updated_at := 9\<rparr>)
   \<and> get_object review_db alice ''s2'' = Inr approved_submission
   \<and> status approved_submission \<noteq> ''draft''
   \<and> submit review_db alice ''s2'' 9 = (review_db, [], Inl (ErrorResponse 400 OnlyDraft))"
proof -
  have h1: "get_object review_db alice ''s1'' = Inr draft_submission"
    by (simp add: get_object_def get_queryset_def review_db_def empty_db_def alice_def
        draft_submission_def approved_submission_def)
  have h2: "get_object review_db alice ''s2'' = Inr approved_submission"
    by (simp add: get_object_def get_queryset_def review_db_def empty_db_def alice_def
        draft_submission_def approved_submission_def)
  have s1: "status draft_submission = ''draft''" by (simp add: draft_submission_def)
  have s2: "status approved_submission \<noteq> ''draft''" by (simp add: approved_submission_def)
  from submit_only_from_draft [OF h1, of 9] submit_only_from_draft [OF h2, of 9] h1 h2 s1 s2
  show ?thesis by simp
qed




section \<open>Submission validation\<close>

text \<open>
  C10. For a field of type \<open>date\<close>, \<open>phone\<close>, \<open>checkbox\<close>, \<open>file\<close> or \<open>multi_file\<close>,
  \<open>_validate_field_value\<close> checks nothing: every value, \<open>None\<close> included, passes, and
  when the field's name is a key of the payload the field never makes \<open>validate\<close>
  fail, whether \<open>config.required\<close> is set or not.
\<close>

theorem unchecked_types_accept_any_value:
  assumes "field_type f \<in> set [''date'', ''phone'', ''checkbox'', ''file'', ''multi_file'']"
  shows "validate_field_value f v = Inr ()
     \<and> (map_of responses n = Some v \<longrightarrow>
          validate_fields ((n, f) # rest) responses = validate_fields rest responses)"
proof -
  have "validate_field_value f v = Inr ()"
    using assms
    by (auto simp: validate_field_value_def text_validations_def number_validations_def
        select_validations_def multi_select_validations_def)
  then show ?thesis by simp
qed

theorem unchecked_types_accept_any_value_witness:
  "field_type birth_date_field \<in> set [''date'', ''phone'', ''checkbox'', ''file'', ''multi_file'']
   \<and> truthy (dict_get (config birth_date_field) ''required'' (JBool False))
   \<and> validate_field_value birth_date_field JNull = Inr ()
   \<and> validate_fields [(''birth_date'', birth_date_field)] [(''birth_date'', JNull)] = Inr ()"
proof -
  have t: "field_type birth_date_field \<in> set [''date'', ''phone'', ''checkbox'', ''file'', ''multi_file'']"
    by (simp add: birth_date_field_def)
  have r: "truthy (dict_get (config birth_date_field) ''required'' (JBool False))"
    by (simp add: birth_date_field_def dict_get_def)
  have m: "map_of [(''birth_date'', JNull)] ''birth_date'' = Some JNull" by simp
  from unchecked_types_accept_any_value [OF t, of JNull "[(''birth_date'', JNull)]" "''birth_date''" "[]"] t r m
  show ?thesis by simp
qed

lemma map_of_dict_set: "map_of (dict_set d k v) = (map_of d)(k \<mapsto> v)"
  by (induction d) (auto simp: fun_eq_iff)

lemma keys_dict_set: "set (map fst (dict_set d k v)) = insert k (set (map fst d))"
  by (induction d) auto

lemma in_dict_setD: "(a, b) \<in> set (dict_set d k v) \<Longrightarrow> a = k \<or> a \<in> fst ` set d"
  by (induction d) (force split: if_splits)+

lemma distinct_dict_set: "distinct (map fst d) \<Longrightarrow> distinct (map fst (dict_set d k v))"
  by (induction d) (auto dest: in_dict_setD)

lemma distinct_foldl_dict_set:
  "distinct (map fst d) \<Longrightarrow>
     distinct (map fst (foldl (\<lambda>d kv. dict_set d (fst kv) (snd kv)) d kvs))"
  by (induction kvs arbitrary: d) (auto simp: distinct_dict_set)

lemma distinct_dict_of: "distinct (map fst (dict_of kvs))"
  unfolding dict_of_def by (rule distinct_foldl_dict_set) simp

lemma validate_fields_append:
  "validate_fields (pre @ post) r =
     (case validate_fields pre r of Inl e \<Rightarrow> Inl e | Inr _ \<Rightarrow> validate_fields post r)"
  by (induction pre) (auto simp: Let_def split: option.splits sum.splits)

lemma validate_fields_other_keys:
  "k \<notin> set (map fst fs) \<Longrightarrow> validate_fields fs (dict_set r k v) = validate_fields fs r"
  by (induction fs) (auto simp: Let_def map_of_dict_set split: option.splits sum.splits)

text \<open>
  The loop of \<open>validate\<close> stops at the first field that fails, in the order of the
  fields: a payload that lacks the required \<open>email\<close> is refused with the message of the
  \<open>age\<close> field, which comes first and holds a string.
\<close>

theorem validate_required_counterexample:
  "truthy (dict_get (config email_field) ''required'' (JBool False))
   \<and> map_of [(''age'', JStr ''x'')] (field_name email_field) = None
   \<and> validate survey_db
        \<lparr>data_form_id = ''f1'', data_responses = [(''age'', JStr ''x'')], data_status = ''draft''\<rparr>
       = Inl (ValidationError (ExpectedNumber ''Age''))"
  by (simp add: validate_def Form_get_def fields_by_name_def fields_all_def dict_of_def
      survey_db_def review_db_def empty_db_def kyc_form_def email_field_def age_field_def
      validate_field_value_def text_validations_def number_validations_def dict_get_def)

text \<open>
  \<open>validate\<close> is the serializer's own step. The field stage that \<open>is_valid()\<close> runs
  before it refuses a null value of any entry of \<open>responses\<close>, whatever the type of the
  field of that name.
\<close>

lemma is_valid_refuses_null:
  "validate_fields [(''birth_date'', birth_date_field)] [(''birth_date'', JNull)] = Inr ()
   \<and> is_valid kyc_db
        \<lparr>data_form_id = ''f1'', data_responses = [(''birth_date'', JNull)],
         data_status = ''draft''\<rparr>
       = Inl (FieldErrors [([''responses'', ''birth_date''], MayNotBeNull)])"
  by (simp add: is_valid_def field_errors_def validate_form_id_def kyc_db_def review_db_def
      empty_db_def kyc_form_def birth_date_field_def validate_field_value_def
      text_validations_def number_validations_def select_validations_def
      multi_select_validations_def dict_get_def)

text \<open>
  C5, as the code has it. Whenever a field of the current version has a true
  \<open>config.required\<close> and its name is not a key of the payload, \<open>validate\<close> fails. The
  failure is the first one in field order: it is \<open>Field '<label>' is required\<close> with
  that field's label when the fields before it pass. When the other fields of the
  version pass, the same payload with an entry for that name whose value passes the
  field's own checks is accepted.
\<close>

theorem validate_missing_required:
  assumes "Form_get d (data_form_id data) = Some form"
    and "current_version form = Some version"
    and "fields_by_name d version = pre @ (n, f) # post"
    and "truthy (dict_get (config f) ''required'' (JBool False))"
    and "map_of (data_responses data) n = None"
  shows "isl (validate d data)
     \<and> (validate_fields pre (data_responses data) = Inr () \<longrightarrow>
          validate d data = Inl (ValidationError (FieldRequired (label f))))
     \<and> (validate_fields (pre @ post) (data_responses data) = Inr ()
          \<and> validate_field_value f v = Inr () \<longrightarrow>
          validate d (data\<lparr>data_responses := dict_set (data_responses data) n v\<rparr>)
            = Inr (data\<lparr>data_responses := dict_set (data_responses data) n v\<rparr>))"
proof -
  let ?r = "data_responses data"
  have here: "validate_fields ((n, f) # post) ?r = Inl (ValidationError (FieldRequired (label f)))"
    using assms(4,5) by (simp add: Let_def)
  have run: "validate d data =
      (case validate_fields pre ?r of
         Inl e \<Rightarrow> Inl e
       | Inr _ \<Rightarrow> Inl (ValidationError (FieldRequired (label f))))"
    using assms(1,2,3) here
    by (simp add: validate_def validate_fields_append split: sum.splits)
  have A: "isl (validate d data)"
    unfolding run by (simp split: sum.splits)
  have B: "validate d data = Inl (ValidationError (FieldRequired (label f)))"
    if "validate_fields pre ?r = Inr ()"
    unfolding run using that by simp
  have C: "validate d (data\<lparr>data_responses := dict_set ?r n v\<rparr>)
      = Inr (data\<lparr>data_responses := dict_set ?r n v\<rparr>)"
    if ok: "validate_fields (pre @ post) ?r = Inr ()" and val: "validate_field_value f v = Inr ()"
  proof -
    have "distinct (map fst (pre @ (n, f) # post))"
      using distinct_dict_of [of "map (\<lambda>f. (field_name f, f)) (fields_all d version)"] assms(3)
      by (simp only: fields_by_name_def)
    then have fresh: "n \<notin> set (map fst pre)" "n \<notin> set (map fst post)" by auto
    from ok have p: "validate_fields pre ?r = Inr ()" and q: "validate_fields post ?r = Inr ()"
      by (auto simp: validate_fields_append split: sum.splits)
    have "validate_fields (pre @ (n, f) # post) (dict_set ?r n v) = Inr ()"
      using fresh p q val
      by (simp add: validate_fields_append validate_fields_other_keys map_of_dict_set Let_def)
    then show ?thesis
      using assms(1,2,3) by (simp add: validate_def)
  qed
  from A B C show ?thesis by blast
qed

theorem validate_missing_required_witness:
  "Form_get kyc_db ''f1'' = Some (kyc_form\<lparr>current_version := Some ''v1''\<rparr>)
   \<and> fields_by_name kyc_db ''v1''
       = [(''full_name'', full_name_field)] @ (''email'', email_field) # []
   \<and> truthy (dict_get (config email_field) ''required'' (JBool False))
   \<and> map_of [(''full_name'', JStr ''John Doe'')] ''email'' = None
   \<and> validate kyc_db
        \<lparr>data_form_id = ''f1'', data_responses = [(''full_name'', JStr ''John Doe'')],
         data_status = ''submitted''\<rparr>
       = Inl (ValidationError (FieldRequired ''Email''))
   \<and> validate kyc_db
        \<lparr>data_form_id = ''f1'',
         data_responses = [(''full_name'', JStr ''John Doe''), (''email'', JStr ''john@example.com'')],
         data_status = ''submitted''\<rparr>
       = Inr \<lparr>data_form_id = ''f1'',
              data_responses = [(''full_name'', JStr ''John Doe''), (''email'', JStr ''john@example.com'')],
              data_status = ''submitted''\<rparr>"
proof -
  let ?data = "\<lparr>data_form_id = ''f1'', data_responses = [(''full_name'', JStr ''John Doe'')],
                data_status = ''submitted''\<rparr>"
  have a: "Form_get kyc_db (data_form_id ?data) = Some (kyc_form\<lparr>current_version := Some ''v1''\<rparr>)"
    by (simp add: Form_get_def kyc_db_def review_db_def empty_db_def kyc_form_def)
  have b: "current_version (kyc_form\<lparr>current_version := Some ''v1''\<rparr>) = Some ''v1''" by simp
  have c: "fields_by_name kyc_db ''v1'' = [(''full_name'', full_name_field)] @ (''email'', email_field) # []"
    by (simp add: fields_by_name_def fields_all_def dict_of_def kyc_db_def review_db_def
        empty_db_def full_name_field_def email_field_def)
  have r: "truthy (dict_get (config email_field) ''required'' (JBool False))"
    by (simp add: email_field_def dict_get_def)
  have m: "map_of (data_responses ?data) ''email'' = None" by simp
  have p: "validate_fields [(''full_name'', full_name_field)] (data_responses ?data) = Inr ()"
    by (simp add: full_name_field_def validate_field_value_def text_validations_def
        number_validations_def select_validations_def multi_select_validations_def dict_get_def)
  have v: "validate_field_value email_field (JStr ''john@example.com'') = Inr ()"
    by (simp add: email_field_def validate_field_value_def text_validations_def
        number_validations_def select_validations_def multi_select_validations_def dict_get_def
        num_lt_def num_gt_def)
  have l: "label email_field = ''Email''" by (simp add: email_field_def)
  from validate_missing_required [OF a b c r m, of "JStr ''john@example.com''"] a c r m p v l
  show ?thesis by simp
qed

text \<open>
  C8 asks that a value that is not a number is refused by a number field. The number
  block tests \<open>isinstance(value, (int, float))\<close>, and \<open>bool\<close> is a subclass of \<open>int\<close>:
  the JSON value \<open>true\<close> passes a number field with bounds 0 and 100 as the number 1,
  where a string is refused with \<open>Expected number value\<close>.
\<close>

theorem number_field_accepts_boolean:
  "field_type age_field = ''number''
   \<and> validate_field_value age_field (JBool True) = Inr ()
   \<and> validate_field_value age_field (JStr ''12'') = Inl (ValidationError (ExpectedNumber ''Age''))"
  by (simp add: age_field_def validate_field_value_def text_validations_def
      number_validations_def select_validations_def multi_select_validations_def dict_get_def
      num_lt_def num_gt_def)

text \<open>
  The bounds of a number field: for a number value and numeric bounds, the value passes
  exactly when it is not below \<open>min_value\<close> (if set) and not above \<open>max_value\<close> (if
  set), so a value equal to a bound passes.
\<close>

lemma number_field_only_number_block:
  "field_type f = ''number'' \<Longrightarrow> validate_field_value f v = number_validations f v"
  by (simp add: validate_field_value_def text_validations_def select_validations_def
      multi_select_validations_def split: sum.splits)

lemma number_bounds_inclusive:
  assumes "field_type f = ''number''" and "num_of v = Some x"
    and "dict_get (config f) ''min_value'' JNull = JNull \<or> num_of (dict_get (config f) ''min_value'' JNull) = Some lo"
    and "dict_get (config f) ''max_value'' JNull = JNull \<or> num_of (dict_get (config f) ''max_value'' JNull) = Some hi"
  shows "validate_field_value f v = Inr () \<longleftrightarrow>
     (dict_get (config f) ''min_value'' JNull \<noteq> JNull \<longrightarrow> lo \<le> x)
     \<and> (dict_get (config f) ''max_value'' JNull \<noteq> JNull \<longrightarrow> x \<le> hi)"
  using assms
  by (auto simp: number_field_only_number_block number_validations_def num_lt_def num_gt_def
      Let_def split: bool.splits)

section \<open>File attachment gate\<close>




section \<open>The schema document on both paths\<close>

lemma create_schema_entry_keys:
  "entry_keys (FormCreateSerializer_build_schema_json d version)
     = map (\<lambda>_. [''id'', ''name'', ''label'', ''type'', ''order'', ''config'', ''validation_rules''])
         (fields_all d (version_id version))"
  by (simp add: entry_keys_def FormCreateSerializer_build_schema_json_def comp_def)

lemma update_schema_entry_keys:
  "entry_keys (FormUpdateSerializer_build_schema_json d version)
     = map (\<lambda>_. [''id'', ''name'', ''label'', ''type'', ''order'', ''config''])
         (fields_all d (version_id version))"
  by (simp add: entry_keys_def FormUpdateSerializer_build_schema_json_def comp_def)

lemma fields_all_ordered:
  "sorted (map (\<lambda>f. (field_order f, field_created_at f)) (fields_all d vid))"
  by (simp add: fields_all_def)

lemma created_db_value:
  "created_db =
     \<lparr>forms = [kyc_form\<lparr>current_version := Some ''v1'', form_updated_at := 1\<rparr>],
      versions =
        [\<lparr>version_id = ''v1'', version_form = ''f1'', version_number = 1,
          schema_json =
            JObj [(''fields'',
                   JList [JObj [(''id'', JStr ''fld1''), (''name'', JStr ''full_name''),
                                (''label'', JStr ''Full Name''), (''type'', JStr ''text''),
                                (''order'', JInt 1),
                                (''config'', JObj [(''required'', JBool True)]),
                                (''validation_rules'', JList [])]])],
          version_created_at = 1, version_updated_at = 1\<rparr>],
      form_fields =
        [\<lparr>field_id = ''fld1'', field_form_version = ''v1'', field_name = ''full_name'',
          label = ''Full Name'', field_type = ''text'', field_order = 1,
          config = [(''required'', JBool True)], field_created_at = 1, field_updated_at = 1\<rparr>],
      rules = [], submissions = [], field_responses = [], file_uploads = []\<rparr>"
  by (simp add: created_db_def FormCreateSerializer_create_def create_new_version_def
      FormVersion_create_def Form_save_def FormVersion_save_def FormField_create_def
      FormCreateSerializer_build_schema_json_def fields_all_def validation_rules_all_def
      versions_desc_def first_def empty_db_def kyc_form_def full_name_data_def Let_def)

lemma created_form_value:
  "snd (FormCreateSerializer_create kyc_form ''v1'' [(''fld1'', full_name_data)] 1 empty_db)
     = Inr created_form"
  by (simp add: created_form_def FormCreateSerializer_create_def create_new_version_def
      FormVersion_create_def Form_save_def FormVersion_save_def versions_desc_def first_def
      empty_db_def kyc_form_def Let_def split: prod.splits)

text \<open>
  C7 asks for the key \<open>validation_rules\<close> in every entry of the schema document on both
  paths. \<open>FormCreateSerializer._build_schema_json\<close> writes it;
  \<open>FormUpdateSerializer._build_schema_json\<close> leaves it out: the version made by an update
  with the same single field has an entry of six keys where the version made at
  creation has seven.
\<close>

theorem update_schema_lacks_validation_rules:
  "map_option (entry_keys \<circ> schema_json) (FormVersion_get created_db ''v1'')
     = Some [[''id'', ''name'', ''label'', ''type'', ''order'', ''config'', ''validation_rules'']]
   \<and> map_option (entry_keys \<circ> schema_json) (FormVersion_get updated_db ''v2'')
     = Some [[''id'', ''name'', ''label'', ''type'', ''order'', ''config'']]"
proof -
  have A: "map_option (entry_keys \<circ> schema_json) (FormVersion_get created_db ''v1'')
     = Some [[''id'', ''name'', ''label'', ''type'', ''order'', ''config'', ''validation_rules'']]"
    by (simp add: created_db_value FormVersion_get_def entry_keys_def)
  have B: "map_option (entry_keys \<circ> schema_json) (FormVersion_get updated_db ''v2'')
     = Some [[''id'', ''name'', ''label'', ''type'', ''order'', ''config'']]"
    by (simp add: updated_db_def created_db_value created_form_def
        FormUpdateSerializer_update_def create_new_version_def
        FormVersion_create_def Form_save_def FormVersion_save_def FormField_create_def
        FormUpdateSerializer_build_schema_json_def fields_all_def
        versions_desc_def first_def kyc_form_def full_name_data_def Let_def
        FormVersion_get_def entry_keys_def)
  from A B show ?thesis by simp
qed

section \<open>Rows written by a submission\<close>

text \<open>
  What \<open>create\<close> has written when it returns: the new submission at the end of its
  table, and after the rows that were there one \<open>FieldResponse\<close> for each entry of the
  payload whose name is a field of the version, in the order of the payload; an entry
  with an unknown name makes no row.
\<close>

lemma create_responses_rows:
  "field_responses (create_responses key_of now sid fd items d)
     = field_responses d @ concat (map (response_row key_of now sid fd) items)
   \<and> submissions (create_responses key_of now sid fd items d) = submissions d"
  by (induction items arbitrary: d) (auto simp: response_row_def split: option.splits)

lemma create_example:
  "map_sum id (\<lambda>r. (map response_field (field_responses (fst r)), status (snd r), submitted_at (snd r)))
     (create ''s9'' (\<lambda>n. ''r-'' @ n) 9 kyc_db alice
        \<lparr>data_form_id = ''f1'',
         data_responses = [(''full_name'', JStr ''John Doe''), (''nickname'', JStr ''JD''),
                           (''email'', JStr ''john@example.com'')],
         data_status = ''submitted''\<rparr>)
   = Inr ([''fld1'', ''fld2''], ''submitted'', Some 9)"
  by (simp add: create_def Form_get_def fields_by_name_def fields_all_def dict_of_def kyc_db_def
      review_db_def empty_db_def kyc_form_def full_name_field_def email_field_def alice_def Let_def)

end
